theory Spec2Isabelle
  imports Main "HOL-Library.Word"
begin

section \<open>JavaScript values of a request\<close>

text \<open>
  The handler is untyped JavaScript: \<open>req.body\<close> is whatever the JSON body parser
  produced, and a field that is missing reads as \<open>undefined\<close>. A \<open>char\<close> stands for
  one UTF-16 code unit below 256; a number is an integer (the handler only tests numbers
  for truthiness and uses them as property keys); an object is the list of its own
  properties.
\<close>

datatype jsval =
    JUndefined
  | JNull
  | JBool bool
  | JNum int
  | JStr string
  | JArr "jsval list"
  | JObj "(string \<times> jsval) list"

text \<open>ToBoolean: what \<open>!x\<close>, \<open>x || y\<close> and \<open>x ? a : b\<close> test.\<close>

fun truthy :: "jsval \<Rightarrow> bool" where
  "truthy JUndefined = False"
| "truthy JNull = False"
| "truthy (JBool b) = b"
| "truthy (JNum n) = (n \<noteq> 0)"
| "truthy (JStr s) = (s \<noteq> [])"
| "truthy (JArr xs) = True"
| "truthy (JObj kvs) = True"

text \<open>\<open>a || b\<close>\<close>

definition or_js :: "jsval \<Rightarrow> jsval \<Rightarrow> jsval" where
  "or_js a b = (if truthy a then a else b)"

text \<open>
  A thrown value, as the handler's \<open>catch\<close> clauses read it: \<open>err.message\<close> and
  \<open>err.properties?.errors\<close> (the template engine's list of sub-errors, each with a
  \<open>name\<close> and a \<open>message\<close>).
\<close>

record sub_error =
  name :: string
  msg :: string

record exn =
  message :: string
  properties_errors :: "sub_error list option"

text \<open>A \<open>TypeError\<close> of the runtime itself. The wording is V8's; nothing below depends on it.\<close>

definition TypeError :: "string \<Rightarrow> exn" where
  "TypeError m = \<lparr>message = m, properties_errors = None\<rparr>"

text \<open>
  \<open>v.k\<close> for a value that is neither \<open>undefined\<close> nor \<open>null\<close>, and a name \<open>k\<close> that
  no prototype defines (every name the handler reads from the request is one): an object
  gives its own property, anything else \<open>undefined\<close>.
\<close>

fun read_prop :: "jsval \<Rightarrow> string \<Rightarrow> jsval" where
  "read_prop (JObj kvs) k = (case map_of kvs k of Some v \<Rightarrow> v | None \<Rightarrow> JUndefined)"
| "read_prop v k = JUndefined"

text \<open>\<open>v.k\<close> in general: reading a property of \<open>undefined\<close> or \<open>null\<close> throws.\<close>

definition get_prop :: "jsval \<Rightarrow> string \<Rightarrow> exn + jsval" where
  "get_prop v k =
     (if v = JUndefined then
        Inl (TypeError (''Cannot read properties of undefined (reading '' @ [CHR 0x27] @ k @ [CHR 0x27] @ '')''))
      else if v = JNull then
        Inl (TypeError (''Cannot read properties of null (reading '' @ [CHR 0x27] @ k @ [CHR 0x27] @ '')''))
      else Inr (read_prop v k))"

subsection \<open>ToString and property keys\<close>

text \<open>Number to string, for an integer: its decimal digits.\<close>

fun digits :: "nat \<Rightarrow> string" where
  "digits n =
     (if n < 10 then [''0123456789'' ! n]
      else digits (n div 10) @ [''0123456789'' ! (n mod 10)])"

declare digits.simps [simp del]

definition number_to_string :: "int \<Rightarrow> string" where
  "number_to_string n = (if n < 0 then CHR ''-'' # digits (nat (- n)) else digits (nat n))"

text \<open>
  ToString (and ToPropertyKey, which agrees with it on these values). An array joins its
  elements with commas, \<open>undefined\<close> and \<open>null\<close> elements giving the empty string. A
  plain object gives \<open>[object Object]\<close> through \<open>Object.prototype.toString\<close>, unless
  it has an own property \<open>toString\<close>: a value parsed from JSON is never callable, the
  inherited \<open>valueOf\<close> returns the object itself, and the conversion throws.
\<close>

fun ToString :: "jsval \<Rightarrow> exn + string"
  and join_elements :: "jsval list \<Rightarrow> exn + string" where
  "ToString JUndefined = Inr ''undefined''"
| "ToString JNull = Inr ''null''"
| "ToString (JBool b) = Inr (if b then ''true'' else ''false'')"
| "ToString (JNum n) = Inr (number_to_string n)"
| "ToString (JStr s) = Inr s"
| "ToString (JArr xs) = join_elements xs"
| "ToString (JObj kvs) =
     (if map_of kvs ''toString'' \<noteq> None
      then Inl (TypeError ''Cannot convert object to primitive value'')
      else Inr ''[object Object]'')"
| "join_elements [] = Inr []"
| "join_elements (x # xs) =
     (case (if x = JUndefined \<or> x = JNull then Inr [] else ToString x) of
        Inl e \<Rightarrow> Inl e
      | Inr s \<Rightarrow>
          (if xs = [] then Inr s
           else (case join_elements xs of Inl e \<Rightarrow> Inl e | Inr t \<Rightarrow> Inr (s @ '','' @ t))))"

section \<open>The data transformer\<close>

text \<open>
  One product as the template receives it (lines 88-98). Each field is \<open>p.f || ''\<close>:
  the request's value when it is truthy, the empty string otherwise.
\<close>

record row =
  code :: jsval
  description :: jsval
  manufacturer_description :: jsval
  product_details :: jsval
  area_description :: jsval
  quantity :: jsval
  price :: jsval
  notes_field :: jsval
  image_field :: jsval

definition transform_product :: "jsval \<Rightarrow> row" where
  "transform_product p =
     \<lparr>code = or_js (read_prop p ''code'') (JStr ''''),
      description = or_js (read_prop p ''description'') (JStr ''''),
      manufacturer_description = or_js (read_prop p ''manufacturerDescription'') (JStr ''''),
      product_details = or_js (read_prop p ''productDetails'') (JStr ''''),
      area_description = or_js (read_prop p ''areaDescription'') (JStr ''''),
      quantity = or_js (read_prop p ''quantity'') (JStr ''''),
      price = or_js (read_prop p ''price'') (JStr ''''),
      notes_field = or_js (read_prop p ''notes'') (JStr ''''),
      image_field = or_js (read_prop p ''image'') (JStr '''')\<rparr>"

definition categoryOrder :: "string list" where
  "categoryOrder =
     [''Kitchen'', ''Bathroom'', ''Bedroom'', ''Living Room'', ''Laundry'', ''Balcony'', ''Other'']"

text \<open>
  \<open>productsByCategory\<close> starts as the object literal \<open>{}\<close>, so a key it does not own is
  looked up in \<open>Object.prototype\<close>. These are the names defined there; each holds a
  function (or, for \<open>__proto__\<close>, the prototype object): a truthy value with no \<open>push\<close>.
\<close>

definition Object_prototype_names :: "string list" where
  "Object_prototype_names =
     [''constructor'', ''__defineGetter__'', ''__defineSetter__'', ''hasOwnProperty'',
      ''__lookupGetter__'', ''__lookupSetter__'', ''isPrototypeOf'', ''propertyIsEnumerable'',
      ''toString'', ''valueOf'', ''__proto__'', ''toLocaleString'']"

text \<open>
  The key under which a product is stored: \<open>p.category || 'Other'\<close>, converted to a
  property key by \<open>productsByCategory[cat]\<close>.
\<close>

definition category_key :: "jsval \<Rightarrow> exn + string" where
  "category_key p =
     (case get_prop p ''category'' of
        Inl e \<Rightarrow> Inl e
      | Inr c \<Rightarrow> ToString (or_js c (JStr ''Other'')))"

text \<open>
  The body of the loop of lines 85-99, on the buckets built so far. An own bucket is an
  array, which is truthy: the row is pushed. A key found in \<open>Object.prototype\<close> is truthy
  as well, so no bucket is created, and calling its \<open>push\<close> throws. Any other key gets
  a new bucket.
\<close>

definition group_step :: "jsval \<Rightarrow> (string \<rightharpoonup> row list) \<Rightarrow> exn + (string \<rightharpoonup> row list)" where
  "group_step p productsByCategory =
     (case category_key p of
        Inl e \<Rightarrow> Inl e
      | Inr cat \<Rightarrow>
          (case productsByCategory cat of
             Some bucket \<Rightarrow> Inr (productsByCategory(cat \<mapsto> bucket @ [transform_product p]))
           | None \<Rightarrow>
               if cat \<in> set Object_prototype_names
               then Inl (TypeError ''productsByCategory[cat].push is not a function'')
               else Inr (productsByCategory(cat \<mapsto> [transform_product p]))))"

fun group_products :: "jsval list \<Rightarrow> (string \<rightharpoonup> row list) \<Rightarrow> exn + (string \<rightharpoonup> row list)" where
  "group_products [] productsByCategory = Inr productsByCategory"
| "group_products (p # ps) productsByCategory =
     (case group_step p productsByCategory of
        Inl e \<Rightarrow> Inl e
      | Inr m \<Rightarrow> group_products ps m)"

text \<open>\<open>cat.toUpperCase()\<close>, for the ASCII names of \<open>categoryOrder\<close>.\<close>

definition upper_char :: "char \<Rightarrow> char" where
  "upper_char c =
     (case map_of (zip ''abcdefghijklmnopqrstuvwxyz'' ''ABCDEFGHIJKLMNOPQRSTUVWXYZ'') c of
        Some u \<Rightarrow> u
      | None \<Rightarrow> c)"

definition toUpperCase :: "string \<Rightarrow> string" where
  "toUpperCase s = map upper_char s"

record category_group =
  category_name :: string
  group_rows :: "row list"

text \<open>
  Lines 101-106. After the filter the bucket exists, so the \<open>None\<close> case of the second
  lookup is never reached.
\<close>

definition categoriesData :: "(string \<rightharpoonup> row list) \<Rightarrow> category_group list" where
  "categoriesData productsByCategory =
     map (\<lambda>cat. \<lparr>category_name = toUpperCase cat,
                 group_rows = (case productsByCategory cat of Some bucket \<Rightarrow> bucket | None \<Rightarrow> [])\<rparr>)
       (filter (\<lambda>cat. case productsByCategory cat of Some bucket \<Rightarrow> length bucket > 0 | None \<Rightarrow> False)
          categoryOrder)"

text \<open>Lines 82-106 together: from the request's products to the template's categories.\<close>

definition categories_of :: "jsval list \<Rightarrow> exn + category_group list" where
  "categories_of ps =
     (case group_products ps Map.empty of
        Inl e \<Rightarrow> Inl e
      | Inr productsByCategory \<Rightarrow> Inr (categoriesData productsByCategory))"

section \<open>Dates, images and the merge engine's configuration\<close>

type_synonym buffer = "8 word list"

text \<open>
  \<open>address.replace(/\s+/g, '_')\<close> on a string: each maximal run of whitespace becomes
  one underscore. The whitespace code units below 256 are tab, line feed, vertical tab,
  form feed, carriage return, space and no-break space.
\<close>

definition is_whitespace :: "char \<Rightarrow> bool" where
  "is_whitespace c = (c \<in> set [CHR 0x09, CHR 0x0A, CHR 0x0B, CHR 0x0C, CHR 0x0D, CHR 0x20, CHR 0xA0])"

function replace_whitespace :: "string \<Rightarrow> string" where
  "replace_whitespace [] = []"
| "replace_whitespace (c # cs) =
     (if is_whitespace c then CHR ''_'' # replace_whitespace (dropWhile is_whitespace cs)
      else c # replace_whitespace cs)"
  by pat_completeness auto
termination
  by (relation "measure length") (auto simp: length_dropWhile_le less_Suc_eq_le)

text \<open>\<open>Array.prototype.join\<close> on strings.\<close>

fun join :: "string \<Rightarrow> string list \<Rightarrow> string" where
  "join sep [] = []"
| "join sep [x] = x"
| "join sep (x # y # ys) = x @ sep @ join sep (y # ys)"

text \<open>
  The image module's configuration (lines 61-65). \<open>getImage\<close> receives the tag's value;
  \<open>getSize\<close> ignores its arguments (the image, the tag's value and its name).
\<close>

record image_module =
  centered :: bool
  getImage :: "jsval \<Rightarrow> exn + buffer"
  getSize :: "buffer \<Rightarrow> jsval \<Rightarrow> string \<Rightarrow> nat list"

record options =
  paragraphLoop :: bool
  linebreaks :: bool
  delimiters :: "string \<times> string"
  modules :: "image_module list option"

record merge_data =
  d_address :: jsval
  d_date :: string
  d_contact_name :: jsval
  d_company :: jsval
  d_phone_number :: jsval
  d_email :: jsval
  d_categories :: "category_group list"

datatype template_path = Packaged | Public

text \<open>
  What the handler calls and does not define: the dynamic imports, the file system, the
  zip and template libraries, \<open>Date\<close> and \<open>Buffer\<close>. A call that can throw returns a
  sum. \<open>Date_new v\<close> is the time value of \<open>new Date(v)\<close>, \<open>None\<close> for an invalid date
  (NaN); \<open>format_en_AU\<close> renders a valid time value as \<open>toLocaleDateString('en-AU',
  {year: 'numeric', month: 'long', day: 'numeric'})\<close> does.
\<close>

record ('c, 'z, 'd) env =
  import_modules :: "exn option"
  existsSync :: "template_path \<Rightarrow> bool"
  readFileSync :: "template_path \<Rightarrow> exn + 'c"
  PizZip :: "'c \<Rightarrow> exn + 'z"
  Date_new :: "jsval \<Rightarrow> exn + int option"
  Date_now :: int
  format_en_AU :: "int \<Rightarrow> string"
  Buffer_from_base64 :: "jsval \<Rightarrow> exn + buffer"
  Docxtemplater :: "'z \<Rightarrow> options \<Rightarrow> exn + 'd"
  setData :: "'d \<Rightarrow> merge_data \<Rightarrow> exn + 'd"
  render :: "'d \<Rightarrow> exn + 'd"
  generate :: "'d \<Rightarrow> exn + buffer"

text \<open>\<open>toLocaleDateString\<close> of a \<open>Date\<close>: an invalid date renders as \<open>Invalid Date\<close>.\<close>

definition toLocaleDateString :: "('c, 'z, 'd) env \<Rightarrow> int option \<Rightarrow> string" where
  "toLocaleDateString env tv = (case tv of None \<Rightarrow> ''Invalid Date'' | Some t \<Rightarrow> format_en_AU env t)"

text \<open>Lines 53-57.\<close>

definition formattedDate :: "('c, 'z, 'd) env \<Rightarrow> jsval \<Rightarrow> exn + string" where
  "formattedDate env date =
     (if truthy date then
        (case Date_new env date of
           Inl e \<Rightarrow> Inl e
         | Inr tv \<Rightarrow> Inr (toLocaleDateString env tv))
      else Inr (toLocaleDateString env (Some (Date_now env))))"

text \<open>Line 60, \<open>products.some(p => p.image)\<close>: stops at the first truthy image.\<close>

fun hasImages :: "jsval list \<Rightarrow> exn + bool" where
  "hasImages [] = Inr False"
| "hasImages (p # ps) =
     (case get_prop p ''image'' of
        Inl e \<Rightarrow> Inl e
      | Inr v \<Rightarrow> if truthy v then Inr True else hasImages ps)"

definition imageModule :: "('c, 'z, 'd) env \<Rightarrow> image_module" where
  "imageModule env =
     \<lparr>centered = False,
      getImage = (\<lambda>tagValue. if truthy tagValue then Buffer_from_base64 env tagValue else Inr []),
      getSize = (\<lambda>img tagValue tagName. [132, 132])\<rparr>"

text \<open>Lines 70-75: the options passed to the template engine.\<close>

definition engine_options :: "('c, 'z, 'd) env \<Rightarrow> bool \<Rightarrow> options" where
  "engine_options env has_images =
     \<lparr>paragraphLoop = True,
      linebreaks = True,
      delimiters = (''{{'', ''}}''),
      modules = (if has_images then Some [imageModule env] else None)\<rparr>"

section \<open>The handler\<close>

record request =
  req_method :: string
  req_body :: jsval

datatype body = NoBody | Json string "string option" | Binary buffer

record response =
  status :: nat
  headers :: "string \<rightharpoonup> string"
  body :: body

text \<open>
  \<open>res.status(n).json({error, details})\<close>. The headers of a response are those the
  handler sets itself with \<open>res.setHeader\<close>; what the framework adds when it
  sends the response is left out.
\<close>

definition json_response :: "nat \<Rightarrow> (string \<rightharpoonup> string) \<Rightarrow> string \<Rightarrow> string option \<Rightarrow> response" where
  "json_response n hs err details = \<lparr>status = n, headers = hs, body = Json err details\<rparr>"

text \<open>
  How a stretch of the handler ends: with \<open>return res...\<close>, with an exception (and the
  headers set when it was thrown), or by going on to the next statement.
\<close>

datatype 'a outcome =
    Return response
  | Throw "string \<rightharpoonup> string" exn
  | Continue 'a

text \<open>Lines 8-10.\<close>

definition cors_headers :: "string \<rightharpoonup> string" where
  "cors_headers =
     [''Access-Control-Allow-Origin'' \<mapsto> ''*'',
      ''Access-Control-Allow-Methods'' \<mapsto> ''POST,OPTIONS'',
      ''Access-Control-Allow-Headers'' \<mapsto> ''Content-Type'']"

definition isArray :: "jsval \<Rightarrow> bool" where
  "isArray v = (case v of JArr xs \<Rightarrow> True | _ \<Rightarrow> False)"

definition elements :: "jsval \<Rightarrow> jsval list" where
  "elements v = (case v of JArr xs \<Rightarrow> xs | _ \<Rightarrow> [])"

text \<open>Lines 18-24, on the fields destructured from \<open>req.body || {}\<close>.\<close>

definition validate :: "(string \<rightharpoonup> string) \<Rightarrow> jsval \<Rightarrow> jsval \<Rightarrow> unit outcome" where
  "validate hs address products =
     (if \<not> truthy address then Return (json_response 400 hs ''Address is required'' None)
      else if \<not> truthy products \<or> \<not> isArray products \<or> length (elements products) = 0
      then Return (json_response 400 hs ''At least one product is required'' None)
      else Continue ())"

text \<open>Lines 26-50: the imports, the template file and its archive.\<close>

definition load_template :: "('c, 'z, 'd) env \<Rightarrow> (string \<rightharpoonup> string) \<Rightarrow> 'z outcome" where
  "load_template env hs =
     (case import_modules env of
        Some e \<Rightarrow> Throw hs e
      | None \<Rightarrow>
          if \<not> existsSync env Packaged \<and> \<not> existsSync env Public
          then Return (json_response 500 hs ''Template file not found'' None)
          else
            (case readFileSync env (if existsSync env Packaged then Packaged else Public) of
               Inl e \<Rightarrow> Throw hs e
             | Inr content \<Rightarrow>
                 (case PizZip env content of
                    Inl err \<Rightarrow>
                      Return (json_response 500 hs ''Template file is corrupted'' (Some (message err)))
                  | Inr zip_archive \<Rightarrow> Continue zip_archive)))"

text \<open>Lines 109-117.\<close>

definition template_data :: "jsval \<Rightarrow> string \<Rightarrow> jsval \<Rightarrow> jsval \<Rightarrow> jsval \<Rightarrow> jsval \<Rightarrow> category_group list \<Rightarrow> merge_data" where
  "template_data address formatted contactName company phoneNumber email cats =
     \<lparr>d_address = address,
      d_date = formatted,
      d_contact_name = or_js contactName (JStr ''''),
      d_company = or_js company (JStr ''''),
      d_phone_number = or_js phoneNumber (JStr ''''),
      d_email = or_js email (JStr ''''),
      d_categories = cats\<rparr>"

text \<open>
  Lines 16-117: from the request body to the template engine holding the data. The result
  is the address and the engine instance.
\<close>

definition prepare :: "('c, 'z, 'd) env \<Rightarrow> (string \<rightharpoonup> string) \<Rightarrow> jsval \<Rightarrow> (jsval \<times> 'd) outcome" where
  "prepare env hs b =
     (let address = read_prop b ''address'';
          date = read_prop b ''date'';
          contactName = read_prop b ''contactName'';
          company = read_prop b ''company'';
          phoneNumber = read_prop b ''phoneNumber'';
          email = read_prop b ''email'';
          products = read_prop b ''products''
      in
      case validate hs address products of
        Return r \<Rightarrow> Return r
      | Throw h e \<Rightarrow> Throw h e
      | Continue u \<Rightarrow>
      (case load_template env hs of
        Return r \<Rightarrow> Return r
      | Throw h e \<Rightarrow> Throw h e
      | Continue zip_archive \<Rightarrow>
      (case formattedDate env date of
        Inl e \<Rightarrow> Throw hs e
      | Inr formatted \<Rightarrow>
      (case hasImages (elements products) of
        Inl e \<Rightarrow> Throw hs e
      | Inr has_images \<Rightarrow>
      (case Docxtemplater env zip_archive (engine_options env has_images) of
        Inl err \<Rightarrow> Return (json_response 500 hs ''Template structure invalid'' (Some (message err)))
      | Inr doc \<Rightarrow>
      (case categories_of (elements products) of
        Inl e \<Rightarrow> Throw hs e
      | Inr cats \<Rightarrow>
      (case setData env doc
              (template_data address formatted contactName company phoneNumber email cats) of
        Inl e \<Rightarrow> Throw hs e
      | Inr doc' \<Rightarrow> Continue (address, doc'))))))))"

text \<open>Lines 122-130: the \<open>catch\<close> around \<open>doc.render()\<close>.\<close>

definition render_failed :: "(string \<rightharpoonup> string) \<Rightarrow> exn \<Rightarrow> response" where
  "render_failed hs err =
     (case properties_errors err of
        Some errors \<Rightarrow>
          json_response 500 hs ''Template rendering failed''
            (Some (join ''; '' (map (\<lambda>e. name e @ '': '' @ msg e) errors)))
      | None \<Rightarrow> json_response 500 hs ''Render failed'' (Some (message err)))"

text \<open>\<open>address.replace(/\s+/g, '_')\<close>: only a string has the method.\<close>

definition address_replace :: "jsval \<Rightarrow> exn + string" where
  "address_replace address =
     (case address of
        JStr s \<Rightarrow> Inr (replace_whitespace s)
      | _ \<Rightarrow> Inl (TypeError ''address.replace is not a function''))"

definition docx_mime :: string where
  "docx_mime = ''application/vnd.openxmlformats-officedocument.wordprocessingml.document''"

text \<open>
  \<open>res.setHeader(name, value)\<close>: Node refuses a value with a character outside tab,
  U+0020 to U+007E and U+0080 to U+00FF, throwing a \<open>TypeError\<close>; any other value is
  stored. (The three headers of lines 8-10 are constants that pass the check.)
\<close>

definition valid_header_char :: "char \<Rightarrow> bool" where
  "valid_header_char c =
     (c = CHR 0x09 \<or> (32 \<le> (of_char c :: nat) \<and> (of_char c :: nat) \<le> 126) \<or> 128 \<le> (of_char c :: nat))"

definition setHeader :: "(string \<rightharpoonup> string) \<Rightarrow> string \<Rightarrow> string \<Rightarrow> exn + (string \<rightharpoonup> string)" where
  "setHeader hs k v =
     (if list_all valid_header_char v then Inr (hs(k \<mapsto> v))
      else Inl (TypeError (''Invalid character in header content ['' @ [CHR 0x22] @ k @ [CHR 0x22] @ '']'')))"

text \<open>The header value of line 136, for the address after the replacement.\<close>

definition content_disposition :: "string \<Rightarrow> string" where
  "content_disposition a =
     ''attachment; filename='' @ [CHR 0x22] @ ''Product_Selection_'' @ a @ ''.docx'' @ [CHR 0x22]"

text \<open>
  Lines 133-138: a response, or an exception with the headers set when it was thrown.
  The content type is set before the file name is computed, so an exception of
  \<open>address.replace\<close> or of the second \<open>setHeader\<close> leaves it set.
\<close>

definition send_document :: "('c, 'z, 'd) env \<Rightarrow> (string \<rightharpoonup> string) \<Rightarrow> jsval \<Rightarrow> 'd \<Rightarrow> ((string \<rightharpoonup> string) \<times> exn) + response" where
  "send_document env hs address doc =
     (case generate env doc of
        Inl e \<Rightarrow> Inl (hs, e)
      | Inr buf \<Rightarrow>
          (case setHeader hs ''Content-Type'' docx_mime of
             Inl e \<Rightarrow> Inl (hs, e)
           | Inr hs1 \<Rightarrow>
               (case address_replace address of
                  Inl e \<Rightarrow> Inl (hs1, e)
                | Inr a \<Rightarrow>
                    (case setHeader hs1 ''Content-Disposition'' (content_disposition a) of
                       Inl e \<Rightarrow> Inl (hs1, e)
                     | Inr hs2 \<Rightarrow> Inr \<lparr>status = 200, headers = hs2, body = Binary buf\<rparr>))))"

text \<open>Lines 15-138: the body of the outer \<open>try\<close>.\<close>

definition try_block :: "('c, 'z, 'd) env \<Rightarrow> (string \<rightharpoonup> string) \<Rightarrow> request \<Rightarrow> ((string \<rightharpoonup> string) \<times> exn) + response" where
  "try_block env hs req =
     (case prepare env hs (or_js (req_body req) (JObj [])) of
        Return r \<Rightarrow> Inr r
      | Throw h e \<Rightarrow> Inl (h, e)
      | Continue (address, doc) \<Rightarrow>
          (case render env doc of
             Inl err \<Rightarrow> Inr (render_failed hs err)
           | Inr doc' \<Rightarrow> send_document env hs address doc'))"

text \<open>The handler, with the outer \<open>catch\<close> of lines 139-142 (the log line is left out).\<close>

definition handler :: "('c, 'z, 'd) env \<Rightarrow> request \<Rightarrow> response" where
  "handler env req =
     (if req_method req = ''OPTIONS'' then \<lparr>status = 200, headers = cors_headers, body = NoBody\<rparr>
      else if req_method req \<noteq> ''POST'' then json_response 405 cors_headers ''Method not allowed'' None
      else
        (case try_block env cors_headers req of
           Inr r \<Rightarrow> r
         | Inl (hs, e) \<Rightarrow> json_response 500 hs ''Failed to generate document'' (Some (message e))))"

text \<open>A field of the request as line 16 destructures it from \<open>req.body || {}\<close>.\<close>

definition field :: "request \<Rightarrow> string \<Rightarrow> jsval" where
  "field req k = read_prop (or_js (req_body req) (JObj [])) k"

section \<open>A reading of the specification, and an environment to run the handler in\<close>

text \<open>
  The specification's words for the file name, "the address with spaces replaced by
  underscores", read literally: every space becomes an underscore.
\<close>

definition spaces_to_underscores :: "string \<Rightarrow> string" where
  "spaces_to_underscores s = map (\<lambda>c. if c = CHR '' '' then CHR ''_'' else c) s"

text \<open>An address whose only whitespace is single spaces.\<close>

fun single_spaced :: "string \<Rightarrow> bool" where
  "single_spaced [] = True"
| "single_spaced [c] = (if is_whitespace c then c = CHR '' '' else True)"
| "single_spaced (c # d # cs) =
     ((if is_whitespace c then c = CHR '' '' \<and> \<not> is_whitespace d else True) \<and> single_spaced (d # cs))"

text \<open>
  The specification's words for the grouping, "partitioning ProductInput by category ...
  preserving input order within a category": the bucket of a key holds the rows of the
  products with that key, in input order, and a key no product has holds none.
\<close>

definition grouped :: "jsval list \<Rightarrow> (string \<rightharpoonup> row list)" where
  "grouped ps =
     (\<lambda>k. if \<exists>p\<in>set ps. category_key p = Inr k
          then Some (map transform_product (filter (\<lambda>p. category_key p = Inr k) ps))
          else None)"

text \<open>
  A product the loop can store: it has a key (it is not \<open>null\<close>, and its category
  converts to a string), and the key is not a name of \<open>Object.prototype\<close>.
\<close>

definition storable :: "jsval \<Rightarrow> bool" where
  "storable p = (case category_key p of Inl e \<Rightarrow> False | Inr k \<Rightarrow> k \<notin> set Object_prototype_names)"

text \<open>
  An environment in which every call succeeds: the template is found under \<open>public\<close>,
  one date string is valid, the base64 text \<open>aGk=\<close> decodes to its two bytes, and the
  archive is two bytes.
\<close>

definition demo_env :: "(unit, unit, unit) env" where
  "demo_env =
     \<lparr>import_modules = None,
      existsSync = (\<lambda>p. p = Public),
      readFileSync = (\<lambda>p. Inr ()),
      PizZip = (\<lambda>c. Inr ()),
      Date_new = (\<lambda>v. if v = JStr ''2025-03-04'' then Inr (Some 1741046400000) else Inr None),
      Date_now = 0,
      format_en_AU = (\<lambda>t. if t = 1741046400000 then ''4 March 2025'' else ''1 January 1970''),
      Buffer_from_base64 = (\<lambda>v. if v = JStr ''aGk='' then Inr [104, 105] else Inr []),
      Docxtemplater = (\<lambda>z opts. Inr ()),
      setData = (\<lambda>d data. Inr ()),
      render = (\<lambda>d. Inr ()),
      generate = (\<lambda>d. Inr [80, 75])\<rparr>"

text \<open>
  The same environment with an engine that keeps what it is given: an instance is the
  options it was constructed with and the data it was set.
\<close>

definition recording_env :: "(unit, unit, options \<times> merge_data option) env" where
  "recording_env =
     \<lparr>import_modules = None,
      existsSync = (\<lambda>p. p = Public),
      readFileSync = (\<lambda>p. Inr ()),
      PizZip = (\<lambda>c. Inr ()),
      Date_new = (\<lambda>v. if v = JStr ''2025-03-04'' then Inr (Some 1741046400000) else Inr None),
      Date_now = 0,
      format_en_AU = (\<lambda>t. if t = 1741046400000 then ''4 March 2025'' else ''1 January 1970''),
      Buffer_from_base64 = (\<lambda>v. if v = JStr ''aGk='' then Inr [104, 105] else Inr []),
      Docxtemplater = (\<lambda>z opts. Inr (opts, None)),
      setData = (\<lambda>d data. Inr (fst d, Some data)),
      render = (\<lambda>d. Inr d),
      generate = (\<lambda>d. Inr [80, 75])\<rparr>"

section \<open>Request validation\<close>

lemma falsy_iff: "(\<not> truthy v) = (v \<in> {JUndefined, JNull, JBool False, JNum 0, JStr ''''})"
  by (cases v) auto

lemma nonempty_array_iff:
  "(truthy v \<and> isArray v \<and> length (elements v) \<noteq> 0) = (\<exists>x xs. v = JArr (x # xs))"
  by (cases v) (auto simp: isArray_def elements_def neq_Nil_conv)

lemma validate_eq:
  "validate hs a ps =
     (if \<not> truthy a then Return (json_response 400 hs ''Address is required'' None)
      else if \<exists>x xs. ps = JArr (x # xs) then Continue ()
      else Return (json_response 400 hs ''At least one product is required'' None))"
  using nonempty_array_iff[of ps] by (auto simp: validate_def)

lemma load_template_Return: "load_template env hs = Return r \<Longrightarrow> status r = 500"
  by (auto simp: load_template_def json_response_def split: option.splits sum.splits if_splits)

lemma prepare_validation_failed:
  assumes "validate hs (read_prop b ''address'') (read_prop b ''products'') = Return r"
  shows "prepare env hs b = Return r"
  using assms by (simp add: prepare_def Let_def)

lemma prepare_Return_500:
  assumes "validate hs (read_prop b ''address'') (read_prop b ''products'') = Continue ()"
    and "prepare env hs b = Return r"
  shows "status r = 500"
  using assms
  by (auto simp: prepare_def Let_def json_response_def
      dest!: load_template_Return split: outcome.splits sum.splits)

lemma send_document_status: "send_document env hs a doc = Inr r \<Longrightarrow> status r = 200"
  by (auto simp: send_document_def split: sum.splits)

lemma render_failed_status: "status (render_failed hs err) = 500"
  by (simp add: render_failed_def json_response_def split: option.splits)

lemma handler_validation_failed:
  assumes "req_method req = ''POST''"
    and "validate cors_headers (field req ''address'') (field req ''products'') = Return r"
  shows "handler env req = r"
  using assms prepare_validation_failed[of cors_headers "or_js (req_body req) (JObj [])" r env]
  by (simp add: handler_def try_block_def field_def)

text \<open>Once validation has passed, every response is a 200 or a 500.\<close>

lemma handler_validated_status:
  assumes "req_method req = ''POST''"
    and "validate cors_headers (field req ''address'') (field req ''products'') = Continue ()"
  shows "status (handler env req) = 200 \<or> status (handler env req) = 500"
proof (cases "prepare env cors_headers (or_js (req_body req) (JObj []))")
  case (Return r)
  with assms prepare_Return_500[of cors_headers "or_js (req_body req) (JObj [])" env r]
  show ?thesis by (simp add: handler_def try_block_def field_def)
next
  case (Throw h e)
  with assms show ?thesis by (simp add: handler_def try_block_def json_response_def)
next
  case (Continue x)
  obtain a doc where x: "x = (a, doc)" by (cases x)
  show ?thesis
  proof (cases "render env doc")
    case (Inl err)
    with assms Continue x show ?thesis
      by (simp add: handler_def try_block_def render_failed_status)
  next
    case (Inr doc')
    show ?thesis
    proof (cases "send_document env cors_headers a doc'")
      case (Inl t)
      with assms Continue x Inr show ?thesis
        by (cases t) (simp add: handler_def try_block_def json_response_def)
    next
      case (Inr r)
      with assms Continue x \<open>render env doc = Inr doc'\<close> send_document_status[OF Inr]
      show ?thesis by (simp add: handler_def try_block_def)
    qed
  qed
qed

lemma truthy_address_not_rejected:
  assumes "req_method req = ''POST''" and "truthy (field req ''address'')"
  shows "handler env req \<noteq> json_response 400 cors_headers ''Address is required'' None"
proof (cases "\<exists>x xs. field req ''products'' = JArr (x # xs)")
  case False
  with assms(2) have "validate cors_headers (field req ''address'') (field req ''products'')
      = Return (json_response 400 cors_headers ''At least one product is required'' None)"
    by (simp add: validate_eq)
  from handler_validation_failed[OF assms(1) this, of env] show ?thesis
    by (simp add: json_response_def)
next
  case True
  with assms(2) have "validate cors_headers (field req ''address'') (field req ''products'') = Continue ()"
    by (simp add: validate_eq)
  from handler_validated_status[OF assms(1) this, of env] show ?thesis
    by (auto simp: json_response_def)
qed

text \<open>
  C4. A POST request is answered with status 400 and the error \<open>Address is required\<close>
  exactly when its address is falsy: absent (\<open>undefined\<close>), \<open>null\<close>, \<open>false\<close>, \<open>0\<close> or
  the empty string. No other path of the handler gives that response. For an address
  that is absent or a string, as the request's type has it, that is: exactly when the
  address is absent or empty.
\<close>

theorem address_required:
  assumes "req_method req = ''POST''"
  shows "((handler env req = json_response 400 cors_headers ''Address is required'' None)
           = (field req ''address'' \<in> {JUndefined, JNull, JBool False, JNum 0, JStr ''''}))
       \<and> (field req ''address'' = JUndefined \<or> (\<exists>s. field req ''address'' = JStr s) \<longrightarrow>
            (handler env req = json_response 400 cors_headers ''Address is required'' None)
              = (field req ''address'' = JUndefined \<or> field req ''address'' = JStr ''''))"
proof -
  have falsy: "(handler env req = json_response 400 cors_headers ''Address is required'' None)
       = (field req ''address'' \<in> {JUndefined, JNull, JBool False, JNum 0, JStr ''''})"
  proof (cases "truthy (field req ''address'')")
    case False
    have rejected: "field req ''address'' \<in> {JUndefined, JNull, JBool False, JNum 0, JStr ''''}"
      using False falsy_iff[of "field req ''address''"] by blast
    have "handler env req = json_response 400 cors_headers ''Address is required'' None"
      using assms False by (intro handler_validation_failed) (simp_all add: validate_eq)
    with rejected show ?thesis by blast
  next
    case True
    have "handler env req \<noteq> json_response 400 cors_headers ''Address is required'' None"
      using truthy_address_not_rejected[OF assms True] .
    moreover have "field req ''address'' \<notin> {JUndefined, JNull, JBool False, JNum 0, JStr ''''}"
      using True falsy_iff[of "field req ''address''"] by blast
    ultimately show ?thesis by blast
  qed
  then show ?thesis by auto
qed

theorem address_required_witness:
  "req_method \<lparr>req_method = ''POST'', req_body = JObj [(''products'', JArr [JObj []])]\<rparr> = ''POST''
   \<and> handler demo_env \<lparr>req_method = ''POST'', req_body = JObj [(''products'', JArr [JObj []])]\<rparr>
       = json_response 400 cors_headers ''Address is required'' None
   \<and> handler demo_env
         \<lparr>req_method = ''POST'',
          req_body = JObj [(''address'', JStr ''12 Smith St''), (''products'', JArr [JObj []])]\<rparr>
       \<noteq> json_response 400 cors_headers ''Address is required'' None"
  using
    address_required[of "\<lparr>req_method = ''POST'', req_body = JObj [(''products'', JArr [JObj []])]\<rparr>" demo_env]
    address_required[of "\<lparr>req_method = ''POST'',
          req_body = JObj [(''address'', JStr ''12 Smith St''), (''products'', JArr [JObj []])]\<rparr>" demo_env]
  by (simp add: field_def or_js_def)

text \<open>
  C5. A POST request with a truthy address is answered with status 400 and the error
  \<open>At least one product is required\<close> exactly when its products are not an array with
  at least one element: absent, not an array, or the empty array.
\<close>

theorem products_required:
  assumes "req_method req = ''POST''" and "truthy (field req ''address'')"
  shows "(handler env req = json_response 400 cors_headers ''At least one product is required'' None)
       = (\<not> (\<exists>x xs. field req ''products'' = JArr (x # xs)))"
proof (cases "\<exists>x xs. field req ''products'' = JArr (x # xs)")
  case False
  with assms(2) have "validate cors_headers (field req ''address'') (field req ''products'')
      = Return (json_response 400 cors_headers ''At least one product is required'' None)"
    by (simp add: validate_eq)
  from handler_validation_failed[OF assms(1) this, of env] False show ?thesis by simp
next
  case True
  with assms(2) have "validate cors_headers (field req ''address'') (field req ''products'') = Continue ()"
    by (simp add: validate_eq)
  from handler_validated_status[OF assms(1) this, of env] True show ?thesis
    by (auto simp: json_response_def)
qed

theorem products_required_witness:
  "req_method \<lparr>req_method = ''POST'', req_body = JObj [(''address'', JStr ''12 Smith St'')]\<rparr> = ''POST''
   \<and> truthy (field \<lparr>req_method = ''POST'', req_body = JObj [(''address'', JStr ''12 Smith St'')]\<rparr> ''address'')
   \<and> handler demo_env \<lparr>req_method = ''POST'', req_body = JObj [(''address'', JStr ''12 Smith St'')]\<rparr>
       = json_response 400 cors_headers ''At least one product is required'' None
   \<and> handler demo_env
         \<lparr>req_method = ''POST'',
          req_body = JObj [(''address'', JStr ''12 Smith St''), (''products'', JArr [])]\<rparr>
       = json_response 400 cors_headers ''At least one product is required'' None
   \<and> handler demo_env
         \<lparr>req_method = ''POST'',
          req_body = JObj [(''address'', JStr ''12 Smith St''), (''products'', JStr ''sink'')]\<rparr>
       = json_response 400 cors_headers ''At least one product is required'' None"
  using
    products_required[of "\<lparr>req_method = ''POST'', req_body = JObj [(''address'', JStr ''12 Smith St'')]\<rparr>" demo_env]
    products_required[of "\<lparr>req_method = ''POST'',
          req_body = JObj [(''address'', JStr ''12 Smith St''), (''products'', JArr [])]\<rparr>" demo_env]
    products_required[of "\<lparr>req_method = ''POST'',
          req_body = JObj [(''address'', JStr ''12 Smith St''), (''products'', JStr ''sink'')]\<rparr>" demo_env]
  by (simp add: field_def or_js_def)

section \<open>The data transformer: grouping\<close>

lemma grouped_Nil: "grouped [] = Map.empty"
  by (simp add: grouped_def)

text \<open>One turn of the loop adds the product to the buckets the specification describes.\<close>

lemma group_step_grouped:
  assumes "group_step p (grouped ps) = Inr m"
  shows "m = grouped (ps @ [p])"
proof -
  from assms obtain cat where key: "category_key p = Inr cat"
    by (auto simp: group_step_def split: sum.splits)
  show ?thesis
  proof (cases "grouped ps cat")
    case None
    then have m: "m = (grouped ps)(cat \<mapsto> [transform_product p])"
      using assms key by (auto simp: group_step_def split: if_splits)
    from None have none: "\<forall>q\<in>set ps. category_key q \<noteq> Inr cat"
      by (auto simp: grouped_def split: if_splits)
    show ?thesis
      unfolding m using none key by (auto simp: grouped_def fun_eq_iff)
  next
    case (Some bucket)
    then have m: "m = (grouped ps)(cat \<mapsto> bucket @ [transform_product p])"
      using assms key by (auto simp: group_step_def)
    from Some have bucket: "bucket = map transform_product (filter (\<lambda>q. category_key q = Inr cat) ps)"
      by (auto simp: grouped_def split: if_splits)
    show ?thesis
      unfolding m bucket using key by (auto simp: grouped_def fun_eq_iff)
  qed
qed

lemma group_products_grouped:
  "group_products qs (grouped ps) = Inr m \<Longrightarrow> m = grouped (ps @ qs)"
proof (induction qs arbitrary: ps)
  case Nil
  then show ?case by simp
next
  case (Cons q qs)
  from Cons.prems obtain m1 where step: "group_step q (grouped ps) = Inr m1"
    and rest: "group_products qs m1 = Inr m"
    by (auto split: sum.splits)
  from group_step_grouped[OF step] have m1: "m1 = grouped (ps @ [q])" .
  from Cons.IH[of "ps @ [q]"] rest m1 show ?case by simp
qed

text \<open>The loop succeeds exactly on lists of storable products.\<close>

lemma storable_key: "storable p \<Longrightarrow> \<exists>k. category_key p = Inr k \<and> k \<notin> set Object_prototype_names"
  by (auto simp: storable_def split: sum.splits)

lemma group_step_succeeds:
  assumes "storable p"
  shows "\<exists>m'. group_step p m = Inr m'"
  using storable_key[OF assms] by (auto simp: group_step_def split: option.splits)

lemma group_step_storable:
  assumes "group_step p (grouped ps) = Inr m" and "\<forall>q\<in>set ps. storable q"
  shows "storable p"
proof -
  from assms(1) obtain cat where key: "category_key p = Inr cat"
    by (auto simp: group_step_def split: sum.splits)
  show ?thesis
  proof (cases "grouped ps cat")
    case None
    with assms(1) key show ?thesis
      by (auto simp: group_step_def storable_def split: if_splits)
  next
    case (Some bucket)
    then obtain q where "q \<in> set ps" and "category_key q = Inr cat"
      by (auto simp: grouped_def split: if_splits)
    with assms(2) key show ?thesis by (auto simp: storable_def)
  qed
qed

lemma group_products_storable:
  "group_products qs (grouped ps) = Inr m \<Longrightarrow> \<forall>q\<in>set ps. storable q \<Longrightarrow> \<forall>q\<in>set qs. storable q"
proof (induction qs arbitrary: ps)
  case Nil
  then show ?case by simp
next
  case (Cons q qs)
  from Cons.prems(1) obtain m1 where step: "group_step q (grouped ps) = Inr m1"
    and rest: "group_products qs m1 = Inr m"
    by (auto split: sum.splits)
  from group_step_storable[OF step Cons.prems(2)] have q: "storable q" .
  from group_step_grouped[OF step] have m1: "m1 = grouped (ps @ [q])" .
  from Cons.IH[of "ps @ [q]"] rest m1 q Cons.prems(2) have "\<forall>x\<in>set qs. storable x" by auto
  with q show ?case by simp
qed

lemma group_products_succeeds:
  "\<forall>q\<in>set qs. storable q \<Longrightarrow> \<exists>m'. group_products qs m = Inr m'"
proof (induction qs arbitrary: m)
  case Nil
  then show ?case by simp
next
  case (Cons q qs)
  then obtain m1 where "group_step q m = Inr m1" using group_step_succeeds[of q m] by auto
  with Cons show ?case by auto
qed

text \<open>
  What lines 101-106 make of the specification's buckets: the names of \<open>categoryOrder\<close>
  that some product has, in that order, each with its products' rows in input order.
\<close>

lemma categoriesData_grouped:
  "categoriesData (grouped ps) =
     map (\<lambda>c. \<lparr>category_name = toUpperCase c,
               group_rows = map transform_product (filter (\<lambda>p. category_key p = Inr c) ps)\<rparr>)
       (filter (\<lambda>c. \<exists>p\<in>set ps. category_key p = Inr c) categoryOrder)"
proof -
  have keep: "(case grouped ps c of Some bucket \<Rightarrow> length bucket > 0 | None \<Rightarrow> False)
      = (\<exists>p\<in>set ps. category_key p = Inr c)" for c
    by (auto simp: grouped_def filter_empty_conv)
  have rows: "(\<exists>p\<in>set ps. category_key p = Inr c) \<Longrightarrow>
      (case grouped ps c of Some bucket \<Rightarrow> bucket | None \<Rightarrow> [])
        = map transform_product (filter (\<lambda>p. category_key p = Inr c) ps)" for c
    by (auto simp: grouped_def)
  show ?thesis
    unfolding categoriesData_def keep
    by (rule map_cong) (auto simp: rows)
qed

lemma categories_of_grouped:
  assumes "categories_of ps = Inr groups"
  shows "groups = categoriesData (grouped ps)"
proof -
  from assms obtain m where m: "group_products ps Map.empty = Inr m" and g: "groups = categoriesData m"
    by (auto simp: categories_of_def split: sum.splits)
  from group_products_grouped[of ps "[]" m] m have "m = grouped ps"
    by (simp add: grouped_Nil)
  then show ?thesis using g by simp
qed

lemma categories_of_storable:
  assumes "categories_of ps = Inr groups"
  shows "\<forall>p\<in>set ps. storable p"
proof -
  from assms obtain m where m: "group_products ps Map.empty = Inr m"
    by (auto simp: categories_of_def split: sum.splits)
  from group_products_storable[of ps "[]" m] m show ?thesis
    by (simp add: grouped_Nil)
qed

lemma categories_of_succeeds:
  assumes "\<forall>p\<in>set ps. storable p"
  shows "categories_of ps = Inr (categoriesData (grouped ps))"
proof -
  from group_products_succeeds[OF assms, of Map.empty]
  obtain m where m: "group_products ps Map.empty = Inr m" by blast
  then have "categories_of ps = Inr (categoriesData m)" by (simp add: categories_of_def)
  with categories_of_grouped[of ps "categoriesData m"] show ?thesis by simp
qed

lemma toUpperCase_categoryOrder:
  "map toUpperCase categoryOrder =
     [''KITCHEN'', ''BATHROOM'', ''BEDROOM'', ''LIVING ROOM'', ''LAUNDRY'', ''BALCONY'', ''OTHER'']"
  by (simp add: categoryOrder_def toUpperCase_def upper_char_def)

text \<open>
  C3. When the grouping loop completes, the emitted groups are the names of
  \<open>categoryOrder\<close> that at least one product has, in the order of \<open>categoryOrder\<close>
  whatever the order of the products, each under its uppercased name with the rows of
  its products in their input order. A category with no product is not emitted.
\<close>

theorem category_groups_fixed_order:
  assumes "categories_of ps = Inr groups"
  shows "groups =
     map (\<lambda>c. \<lparr>category_name = toUpperCase c,
               group_rows = map transform_product (filter (\<lambda>p. category_key p = Inr c) ps)\<rparr>)
       (filter (\<lambda>c. \<exists>p\<in>set ps. category_key p = Inr c) categoryOrder)"
  using categories_of_grouped[OF assms] categoriesData_grouped[of ps] by simp

theorem category_groups_fixed_order_witness:
  "categories_of
     [JObj [(''category'', JStr ''Bathroom''), (''code'', JStr ''B1'')],
      JObj [(''category'', JStr ''Kitchen''), (''code'', JStr ''K1'')],
      JObj [(''category'', JStr ''Bathroom''), (''code'', JStr ''B2'')]]
   = Inr [\<lparr>category_name = ''KITCHEN'',
            group_rows = [transform_product (JObj [(''category'', JStr ''Kitchen''), (''code'', JStr ''K1'')])]\<rparr>,
          \<lparr>category_name = ''BATHROOM'',
            group_rows = [transform_product (JObj [(''category'', JStr ''Bathroom''), (''code'', JStr ''B1'')]),
                          transform_product (JObj [(''category'', JStr ''Bathroom''), (''code'', JStr ''B2'')])]\<rparr>]
   \<and> [\<lparr>category_name = ''KITCHEN'',
            group_rows = [transform_product (JObj [(''category'', JStr ''Kitchen''), (''code'', JStr ''K1'')])]\<rparr>,
          \<lparr>category_name = ''BATHROOM'',
            group_rows = [transform_product (JObj [(''category'', JStr ''Bathroom''), (''code'', JStr ''B1'')]),
                          transform_product (JObj [(''category'', JStr ''Bathroom''), (''code'', JStr ''B2'')])]\<rparr>]
     = map (\<lambda>c. \<lparr>category_name = toUpperCase c,
                 group_rows = map transform_product
                   (filter (\<lambda>p. category_key p = Inr c)
                      [JObj [(''category'', JStr ''Bathroom''), (''code'', JStr ''B1'')],
                       JObj [(''category'', JStr ''Kitchen''), (''code'', JStr ''K1'')],
                       JObj [(''category'', JStr ''Bathroom''), (''code'', JStr ''B2'')]])\<rparr>)
         (filter (\<lambda>c. \<exists>p\<in>set
                      [JObj [(''category'', JStr ''Bathroom''), (''code'', JStr ''B1'')],
                       JObj [(''category'', JStr ''Kitchen''), (''code'', JStr ''K1'')],
                       JObj [(''category'', JStr ''Bathroom''), (''code'', JStr ''B2'')]].
                    category_key p = Inr c) categoryOrder)"
proof -
  have run: "categories_of
     [JObj [(''category'', JStr ''Bathroom''), (''code'', JStr ''B1'')],
      JObj [(''category'', JStr ''Kitchen''), (''code'', JStr ''K1'')],
      JObj [(''category'', JStr ''Bathroom''), (''code'', JStr ''B2'')]]
   = Inr [\<lparr>category_name = ''KITCHEN'',
            group_rows = [transform_product (JObj [(''category'', JStr ''Kitchen''), (''code'', JStr ''K1'')])]\<rparr>,
          \<lparr>category_name = ''BATHROOM'',
            group_rows = [transform_product (JObj [(''category'', JStr ''Bathroom''), (''code'', JStr ''B1'')]),
                          transform_product (JObj [(''category'', JStr ''Bathroom''), (''code'', JStr ''B2'')])]\<rparr>]"
    by (simp add: categories_of_def group_step_def category_key_def get_prop_def or_js_def
        Object_prototype_names_def categoriesData_def categoryOrder_def toUpperCase_def upper_char_def)
  show ?thesis
    by (rule conjI[OF run category_groups_fixed_order[OF run]])
qed

text \<open>
  C1, as stated, fails: a product whose category is the string \<open>Unknown\<close> is stored
  under the key \<open>Unknown\<close>, which lines 101-106 never read. Nothing is emitted for it.
\<close>

theorem unknown_category_counterexample:
  "categories_of [JObj [(''category'', JStr ''Unknown''), (''code'', JStr ''X1'')]] = Inr []"
  by (simp add: categories_of_def group_step_def category_key_def get_prop_def or_js_def
      Object_prototype_names_def categoriesData_def categoryOrder_def)

lemma falsy_category_key:
  assumes "storable p" and "\<not> truthy (read_prop p ''category'')"
  shows "category_key p = Inr ''Other''"
  using assms
  by (auto simp: storable_def category_key_def get_prop_def or_js_def split: sum.splits if_splits)

lemma categoriesData_grouped_removeAll:
  assumes "category_key p \<notin> Inr ` set categoryOrder"
  shows "categoriesData (grouped (removeAll p ps)) = categoriesData (grouped ps)"
proof -
  have rows: "filter (\<lambda>q. category_key q = Inr c) (removeAll p ps) = filter (\<lambda>q. category_key q = Inr c) ps"
    if "c \<in> set categoryOrder" for c
    using that assms by (induction ps) auto
  have keep: "(\<exists>q\<in>set (removeAll p ps). category_key q = Inr c) = (\<exists>q\<in>set ps. category_key q = Inr c)"
    if "c \<in> set categoryOrder" for c
    using that assms by auto
  have eq: "filter (\<lambda>c. \<exists>q\<in>set (removeAll p ps). category_key q = Inr c) categoryOrder
      = filter (\<lambda>c. \<exists>q\<in>set ps. category_key q = Inr c) categoryOrder"
    by (rule filter_cong[OF refl]) (rule keep, assumption)
  show ?thesis
    unfolding categoriesData_grouped eq
    by (rule map_cong[OF refl]) (simp add: rows)
qed

lemma category_key_string:
  assumes "read_prop p ''category'' = JStr c" and "c \<noteq> []"
  shows "category_key p = Inr c"
  using assms by (cases p) (auto simp: category_key_def get_prop_def or_js_def)

text \<open>
  C1, amended. The grouping loop completes exactly when every product can be stored: it
  is not \<open>null\<close>, its category converts to a property key, and the key is not a name of
  \<open>Object.prototype\<close> (for a product whose category is a non-empty string: the string is
  not such a name). Whenever it completes, a product whose category is absent or
  otherwise falsy is emitted in the group headed \<open>OTHER\<close>, and a product whose category
  is a non-empty string outside the seven names of \<open>categoryOrder\<close> is emitted nowhere,
  the groups being the same as for the request without it.
\<close>

theorem unrecognised_category_dropped:
  assumes "p \<in> set ps"
  shows "((\<exists>groups. categories_of ps = Inr groups) = (\<forall>q\<in>set ps. storable q))
       \<and> (\<forall>c. read_prop p ''category'' = JStr c \<and> c \<noteq> [] \<longrightarrow>
             storable p = (c \<notin> set Object_prototype_names))
       \<and> (\<forall>groups. categories_of ps = Inr groups \<longrightarrow>
             (\<not> truthy (read_prop p ''category'') \<longrightarrow>
                (\<exists>g\<in>set groups. category_name g = ''OTHER'' \<and> transform_product p \<in> set (group_rows g)))
             \<and> (\<forall>c. read_prop p ''category'' = JStr c \<and> c \<noteq> [] \<and> c \<notin> set categoryOrder \<longrightarrow>
                   categories_of (removeAll p ps) = Inr groups))"
proof (intro conjI allI impI)
  show "(\<exists>groups. categories_of ps = Inr groups) = (\<forall>q\<in>set ps. storable q)"
    using categories_of_storable[of ps] categories_of_succeeds[of ps] by blast
next
  fix c
  assume "read_prop p ''category'' = JStr c \<and> c \<noteq> []"
  then have "category_key p = Inr c" using category_key_string by blast
  then show "storable p = (c \<notin> set Object_prototype_names)" by (simp add: storable_def)
next
  fix groups
  assume run: "categories_of ps = Inr groups" and falsy: "\<not> truthy (read_prop p ''category'')"
  from categories_of_storable[OF run] assms have "storable p" by blast
  from falsy_category_key[OF this falsy] have key: "category_key p = Inr ''Other''" .
  let ?g = "\<lparr>category_name = toUpperCase ''Other'',
             group_rows = map transform_product (filter (\<lambda>q. category_key q = Inr ''Other'') ps)\<rparr>"
  have "''Other'' \<in> set (filter (\<lambda>c. \<exists>q\<in>set ps. category_key q = Inr c) categoryOrder)"
    using key assms by (auto simp: categoryOrder_def)
  then have "?g \<in> set groups"
    unfolding categories_of_grouped[OF run] categoriesData_grouped set_map
    by (rule rev_image_eqI) simp
  moreover have "category_name ?g = ''OTHER''"
    by (simp add: toUpperCase_def upper_char_def)
  moreover have "transform_product p \<in> set (group_rows ?g)"
    using key assms by simp
  ultimately show "\<exists>g\<in>set groups. category_name g = ''OTHER'' \<and> transform_product p \<in> set (group_rows g)"
    by blast
next
  fix groups c
  assume run: "categories_of ps = Inr groups"
    and c: "read_prop p ''category'' = JStr c \<and> c \<noteq> [] \<and> c \<notin> set categoryOrder"
  from c have "category_key p = Inr c" using category_key_string by blast
  with c have outside: "category_key p \<notin> Inr ` set categoryOrder" by auto
  from categories_of_storable[OF run] have "\<forall>q\<in>set (removeAll p ps). storable q" by simp
  from categories_of_succeeds[OF this] categoriesData_grouped_removeAll[OF outside, of ps]
    categories_of_grouped[OF run]
  show "categories_of (removeAll p ps) = Inr groups" by simp
qed

theorem unrecognised_category_dropped_witness:
  "categories_of
     [JObj [(''category'', JStr ''Unknown''), (''code'', JStr ''X1'')], JObj [(''code'', JStr ''Y1'')]]
     = Inr [\<lparr>category_name = ''OTHER'', group_rows = [transform_product (JObj [(''code'', JStr ''Y1'')])]\<rparr>]
   \<and> list_all storable
        [JObj [(''category'', JStr ''Unknown''), (''code'', JStr ''X1'')], JObj [(''code'', JStr ''Y1'')]]
   \<and> \<not> truthy (read_prop (JObj [(''code'', JStr ''Y1'')]) ''category'')
   \<and> (\<exists>g\<in>set [\<lparr>category_name = ''OTHER'', group_rows = [transform_product (JObj [(''code'', JStr ''Y1'')])]\<rparr>].
         category_name g = ''OTHER'' \<and> transform_product (JObj [(''code'', JStr ''Y1'')]) \<in> set (group_rows g))
   \<and> read_prop (JObj [(''category'', JStr ''Unknown''), (''code'', JStr ''X1'')]) ''category'' = JStr ''Unknown''
   \<and> ''Unknown'' \<notin> set categoryOrder
   \<and> storable (JObj [(''category'', JStr ''Unknown''), (''code'', JStr ''X1'')])
   \<and> categories_of
         (removeAll (JObj [(''category'', JStr ''Unknown''), (''code'', JStr ''X1'')])
            [JObj [(''category'', JStr ''Unknown''), (''code'', JStr ''X1'')], JObj [(''code'', JStr ''Y1'')]])
       = Inr [\<lparr>category_name = ''OTHER'', group_rows = [transform_product (JObj [(''code'', JStr ''Y1'')])]\<rparr>]"
proof -
  let ?u = "JObj [(''category'', JStr ''Unknown''), (''code'', JStr ''X1'')]"
  let ?n = "JObj [(''code'', JStr ''Y1'')]"
  let ?g = "[\<lparr>category_name = ''OTHER'', group_rows = [transform_product ?n]\<rparr>]"
  have run: "categories_of [?u, ?n] = Inr ?g"
    by (simp add: categories_of_def group_step_def category_key_def get_prop_def or_js_def
        Object_prototype_names_def categoriesData_def categoryOrder_def toUpperCase_def upper_char_def)
  have falsy: "\<not> truthy (read_prop ?n ''category'')" by simp
  have cat: "read_prop ?u ''category'' = JStr ''Unknown''" by simp
  have outside: "''Unknown'' \<notin> set categoryOrder" by (simp add: categoryOrder_def)
  have name: "''Unknown'' \<notin> set Object_prototype_names" by (simp add: Object_prototype_names_def)
  note n = unrecognised_category_dropped[of ?n "[?u, ?n]"]
  note u = unrecognised_category_dropped[of ?u "[?u, ?n]"]
  from n run have all: "\<forall>q\<in>set [?u, ?n]. storable q" by simp
  then have all': "list_all storable [?u, ?n]" by (simp add: list_all_iff)
  from n run falsy
  have other: "\<exists>g\<in>set ?g. category_name g = ''OTHER'' \<and> transform_product ?n \<in> set (group_rows g)"
    by simp
  from u cat name have st: "storable ?u" by simp
  from u run cat outside
  have dropped: "categories_of (removeAll ?u [?u, ?n]) = Inr ?g"
    by simp
  from run all' falsy other cat outside st dropped show ?thesis by blast
qed

text \<open>
  C2, as stated, fails for the image: a product with no image gets the zero-length string,
  the same value as every other absent field, and no separate marker.
\<close>

theorem absent_image_counterexample:
  "image_field (transform_product (JObj [(''category'', JStr ''Kitchen''), (''code'', JStr ''K1'')])) = JStr ''''"
  by (simp add: transform_product_def or_js_def)

text \<open>
  C2, amended. Every field of a row whose value in the request is absent (or otherwise
  falsy: \<open>null\<close>, the empty string) is the empty string, the image included.
\<close>

theorem absent_fields_default:
  "(\<not> truthy (read_prop p ''code'') \<longrightarrow> code (transform_product p) = JStr '''')
   \<and> (\<not> truthy (read_prop p ''description'') \<longrightarrow> description (transform_product p) = JStr '''')
   \<and> (\<not> truthy (read_prop p ''manufacturerDescription'') \<longrightarrow>
        manufacturer_description (transform_product p) = JStr '''')
   \<and> (\<not> truthy (read_prop p ''productDetails'') \<longrightarrow> product_details (transform_product p) = JStr '''')
   \<and> (\<not> truthy (read_prop p ''areaDescription'') \<longrightarrow> area_description (transform_product p) = JStr '''')
   \<and> (\<not> truthy (read_prop p ''quantity'') \<longrightarrow> quantity (transform_product p) = JStr '''')
   \<and> (\<not> truthy (read_prop p ''price'') \<longrightarrow> price (transform_product p) = JStr '''')
   \<and> (\<not> truthy (read_prop p ''notes'') \<longrightarrow> notes_field (transform_product p) = JStr '''')
   \<and> (\<not> truthy (read_prop p ''image'') \<longrightarrow> image_field (transform_product p) = JStr '''')"
  by (simp add: transform_product_def or_js_def)

theorem absent_fields_default_witness:
  "\<not> truthy (read_prop (JObj [(''category'', JStr ''Kitchen'')]) ''code'')
   \<and> code (transform_product (JObj [(''category'', JStr ''Kitchen'')])) = JStr ''''
   \<and> \<not> truthy (read_prop (JObj [(''category'', JStr ''Kitchen'')]) ''description'')
   \<and> description (transform_product (JObj [(''category'', JStr ''Kitchen'')])) = JStr ''''
   \<and> \<not> truthy (read_prop (JObj [(''category'', JStr ''Kitchen'')]) ''manufacturerDescription'')
   \<and> manufacturer_description (transform_product (JObj [(''category'', JStr ''Kitchen'')])) = JStr ''''
   \<and> \<not> truthy (read_prop (JObj [(''category'', JStr ''Kitchen'')]) ''productDetails'')
   \<and> product_details (transform_product (JObj [(''category'', JStr ''Kitchen'')])) = JStr ''''
   \<and> \<not> truthy (read_prop (JObj [(''category'', JStr ''Kitchen'')]) ''areaDescription'')
   \<and> area_description (transform_product (JObj [(''category'', JStr ''Kitchen'')])) = JStr ''''
   \<and> \<not> truthy (read_prop (JObj [(''category'', JStr ''Kitchen'')]) ''quantity'')
   \<and> quantity (transform_product (JObj [(''category'', JStr ''Kitchen'')])) = JStr ''''
   \<and> \<not> truthy (read_prop (JObj [(''category'', JStr ''Kitchen'')]) ''price'')
   \<and> price (transform_product (JObj [(''category'', JStr ''Kitchen'')])) = JStr ''''
   \<and> \<not> truthy (read_prop (JObj [(''category'', JStr ''Kitchen'')]) ''notes'')
   \<and> notes_field (transform_product (JObj [(''category'', JStr ''Kitchen'')])) = JStr ''''
   \<and> \<not> truthy (read_prop (JObj [(''category'', JStr ''Kitchen'')]) ''image'')
   \<and> image_field (transform_product (JObj [(''category'', JStr ''Kitchen'')])) = JStr ''''"
  using absent_fields_default[of "JObj [(''category'', JStr ''Kitchen'')]"] by simp

section \<open>The responses of the handler\<close>

lemma prepare_address:
  assumes "prepare env hs b = Continue (a, doc)"
  shows "a = read_prop b ''address''"
  using assms
  by (auto simp: prepare_def Let_def split: outcome.splits sum.splits)

lemma handler_render_failed:
  assumes "req_method req = ''POST''"
    and "prepare env cors_headers (or_js (req_body req) (JObj [])) = Continue (a, doc)"
    and "render env doc = Inl err"
  shows "handler env req = render_failed cors_headers err"
  using assms by (simp add: handler_def try_block_def)

lemma valid_docx_mime: "list_all valid_header_char docx_mime"
  by (simp add: valid_header_char_def docx_mime_def)

lemma valid_content_disposition:
  "list_all valid_header_char (content_disposition a) = list_all valid_header_char a"
  by (simp add: content_disposition_def valid_header_char_def)

lemma send_document_string:
  assumes "generate env doc = Inr buf"
  shows "send_document env hs (JStr s) doc =
     (if list_all valid_header_char (replace_whitespace s)
      then Inr \<lparr>status = 200,
                headers = hs(''Content-Type'' \<mapsto> docx_mime,
                  ''Content-Disposition'' \<mapsto> content_disposition (replace_whitespace s)),
                body = Binary buf\<rparr>
      else Inl (hs(''Content-Type'' \<mapsto> docx_mime),
                TypeError (''Invalid character in header content ['' @ [CHR 0x22]
                             @ ''Content-Disposition'' @ [CHR 0x22] @ '']'')))"
  using assms valid_docx_mime
  by (simp add: send_document_def address_replace_def setHeader_def valid_content_disposition)

text \<open>The two ends of lines 133-138 for a string address, once the archive is generated.\<close>

lemma handler_sends_document:
  assumes "req_method req = ''POST''"
    and "prepare env cors_headers (or_js (req_body req) (JObj [])) = Continue (a, doc)"
    and "render env doc = Inr doc'"
    and "generate env doc' = Inr buf"
    and "field req ''address'' = JStr s"
    and "list_all valid_header_char (replace_whitespace s)"
  shows "handler env req =
     \<lparr>status = 200,
      headers = cors_headers(''Content-Type'' \<mapsto> docx_mime,
        ''Content-Disposition'' \<mapsto>
          ''attachment; filename='' @ [CHR 0x22] @ ''Product_Selection_'' @ replace_whitespace s @ ''.docx'' @ [CHR 0x22]),
      body = Binary buf\<rparr>"
proof -
  from prepare_address[OF assms(2)] assms(5) have "a = JStr s" by (simp add: field_def)
  with assms show ?thesis
    by (simp add: handler_def try_block_def send_document_string content_disposition_def)
qed

lemma handler_refused_header:
  assumes "req_method req = ''POST''"
    and "prepare env cors_headers (or_js (req_body req) (JObj [])) = Continue (a, doc)"
    and "render env doc = Inr doc'"
    and "generate env doc' = Inr buf"
    and "field req ''address'' = JStr s"
    and "\<not> list_all valid_header_char (replace_whitespace s)"
  shows "handler env req =
     json_response 500 (cors_headers(''Content-Type'' \<mapsto> docx_mime)) ''Failed to generate document''
       (Some (''Invalid character in header content ['' @ [CHR 0x22] @ ''Content-Disposition'' @ [CHR 0x22] @ '']''))"
proof -
  from prepare_address[OF assms(2)] assms(5) have "a = JStr s" by (simp add: field_def)
  with assms show ?thesis
    by (simp add: handler_def try_block_def send_document_string TypeError_def)
qed

lemma valid_underscore: "valid_header_char (CHR ''_'')"
  by (simp add: valid_header_char_def)

text \<open>
  After the replacement, what is left of the address is its characters outside
  whitespace, and underscores.
\<close>

lemma replace_whitespace_valid:
  "\<forall>c\<in>set s. is_whitespace c \<or> valid_header_char c \<Longrightarrow> list_all valid_header_char (replace_whitespace s)"
proof (induction s rule: replace_whitespace.induct)
  case 1
  then show ?case by simp
next
  case (2 c cs)
  show ?case
  proof (cases "is_whitespace c")
    case True
    have "\<forall>x\<in>set (dropWhile is_whitespace cs). is_whitespace x \<or> valid_header_char x"
      using "2.prems" by (auto dest: set_dropWhileD)
    with "2.IH"(1)[OF True] True show ?thesis by (simp add: valid_underscore)
  next
    case False
    with "2.prems" have "valid_header_char c" and "\<forall>x\<in>set cs. is_whitespace x \<or> valid_header_char x"
      by auto
    with "2.IH"(2)[OF False] False show ?thesis by simp
  qed
qed

lemma replace_whitespace_all:
  assumes "s \<noteq> []" and "\<forall>c\<in>set s. is_whitespace c"
  shows "replace_whitespace s = ''_''"
proof -
  from assms obtain c cs where s: "s = c # cs" by (cases s) auto
  with assms(2) have rest: "dropWhile is_whitespace cs = []" and first: "is_whitespace c" by simp_all
  show ?thesis unfolding s by (simp add: rest first)
qed

text \<open>
  C7. When the merge is invoked and \<open>doc.render()\<close> throws, the response has status 500.
  If the error carries a list of sub-errors, the details are each sub-error as
  \<open>name: message\<close>, joined by \<open>; \<close>; otherwise the details are the error's own message.
\<close>

theorem render_failure_details:
  assumes "req_method req = ''POST''"
    and "prepare env cors_headers (or_js (req_body req) (JObj [])) = Continue (a, doc)"
    and "render env doc = Inl err"
  shows "handler env req =
     (case properties_errors err of
        Some errors \<Rightarrow>
          \<lparr>status = 500, headers = cors_headers,
           body = Json ''Template rendering failed''
                    (Some (join ''; '' (map (\<lambda>e. name e @ '': '' @ msg e) errors)))\<rparr>
      | None \<Rightarrow>
          \<lparr>status = 500, headers = cors_headers, body = Json ''Render failed'' (Some (message err))\<rparr>)"
  using handler_render_failed[OF assms]
  by (simp add: render_failed_def json_response_def split: option.splits)

theorem render_failure_details_witness:
  "req_method \<lparr>req_method = ''POST'',
       req_body = JObj [(''address'', JStr ''12 Smith St''), (''products'', JArr [JObj [(''code'', JStr ''K1'')]])]\<rparr> = ''POST''
   \<and> prepare
        (demo_env\<lparr>render := \<lambda>d. Inl \<lparr>message = ''Multi error'',
           properties_errors = Some [\<lparr>name = ''TemplateError'', msg = ''Unclosed tag''\<rparr>,
                                     \<lparr>name = ''ScopeParserError'', msg = ''Unopened loop''\<rparr>]\<rparr>\<rparr>)
        cors_headers
        (or_js (req_body \<lparr>req_method = ''POST'',
           req_body = JObj [(''address'', JStr ''12 Smith St''), (''products'', JArr [JObj [(''code'', JStr ''K1'')]])]\<rparr>) (JObj []))
      = Continue (JStr ''12 Smith St'', ())
   \<and> handler
        (demo_env\<lparr>render := \<lambda>d. Inl \<lparr>message = ''Multi error'',
           properties_errors = Some [\<lparr>name = ''TemplateError'', msg = ''Unclosed tag''\<rparr>,
                                     \<lparr>name = ''ScopeParserError'', msg = ''Unopened loop''\<rparr>]\<rparr>\<rparr>)
        \<lparr>req_method = ''POST'',
         req_body = JObj [(''address'', JStr ''12 Smith St''), (''products'', JArr [JObj [(''code'', JStr ''K1'')]])]\<rparr>
      = \<lparr>status = 500, headers = cors_headers,
         body = Json ''Template rendering failed''
                  (Some ''TemplateError: Unclosed tag; ScopeParserError: Unopened loop'')\<rparr>
   \<and> handler
        (demo_env\<lparr>render := \<lambda>d. Inl \<lparr>message = ''Cannot render'', properties_errors = None\<rparr>\<rparr>)
        \<lparr>req_method = ''POST'',
         req_body = JObj [(''address'', JStr ''12 Smith St''), (''products'', JArr [JObj [(''code'', JStr ''K1'')]])]\<rparr>
      = \<lparr>status = 500, headers = cors_headers, body = Json ''Render failed'' (Some ''Cannot render'')\<rparr>"
proof -
  let ?req = "\<lparr>req_method = ''POST'',
       req_body = JObj [(''address'', JStr ''12 Smith St''), (''products'', JArr [JObj [(''code'', JStr ''K1'')]])]\<rparr>"
  let ?multi = "\<lparr>message = ''Multi error'',
           properties_errors = Some [\<lparr>name = ''TemplateError'', msg = ''Unclosed tag''\<rparr>,
                                     \<lparr>name = ''ScopeParserError'', msg = ''Unopened loop''\<rparr>]\<rparr>"
  let ?single = "\<lparr>message = ''Cannot render'', properties_errors = None\<rparr>"
  have post: "req_method ?req = ''POST''" by simp
  have prep: "prepare (demo_env\<lparr>render := r\<rparr>) cors_headers (or_js (req_body ?req) (JObj []))
      = Continue (JStr ''12 Smith St'', ())" for r
    by (simp add: prepare_def validate_def isArray_def elements_def load_template_def formattedDate_def
        toLocaleDateString_def get_prop_def categories_of_def group_step_def category_key_def
        Object_prototype_names_def or_js_def demo_env_def Let_def)
  have r1: "render (demo_env\<lparr>render := \<lambda>d. Inl ?multi\<rparr>) () = Inl ?multi" by simp
  have r2: "render (demo_env\<lparr>render := \<lambda>d. Inl ?single\<rparr>) () = Inl ?single" by simp
  from render_failure_details[OF post prep r1] render_failure_details[OF post prep r2] post prep
  show ?thesis by simp
qed

text \<open>
  On an address whose only whitespace is single spaces, the handler's replacement is the
  specification's: each space becomes an underscore.
\<close>

lemma replace_whitespace_single_spaced:
  "single_spaced s \<Longrightarrow> replace_whitespace s = spaces_to_underscores s"
proof (induction s rule: single_spaced.induct)
  case 1
  then show ?case by (simp add: spaces_to_underscores_def)
next
  case (2 c)
  then show ?case by (auto simp: spaces_to_underscores_def is_whitespace_def split: if_splits)
next
  case (3 c d cs)
  then show ?case
    by (cases "is_whitespace c") (auto simp: spaces_to_underscores_def is_whitespace_def split: if_splits)
qed

text \<open>
  C6, as stated, fails when the address has two spaces in a row: replacing each space by
  an underscore gives two underscores, the handler gives one.
\<close>

theorem filename_spaces_counterexample:
  "status (handler demo_env
      \<lparr>req_method = ''POST'',
       req_body = JObj [(''address'', JStr ''12  Smith St''), (''products'', JArr [JObj [(''code'', JStr ''K1'')]])]\<rparr>)
     = 200
   \<and> headers (handler demo_env
      \<lparr>req_method = ''POST'',
       req_body = JObj [(''address'', JStr ''12  Smith St''), (''products'', JArr [JObj [(''code'', JStr ''K1'')]])]\<rparr>)
       ''Content-Disposition''
     = Some (''attachment; filename='' @ [CHR 0x22] @ ''Product_Selection_12_Smith_St.docx'' @ [CHR 0x22])
   \<and> headers (handler demo_env
      \<lparr>req_method = ''POST'',
       req_body = JObj [(''address'', JStr ''12  Smith St''), (''products'', JArr [JObj [(''code'', JStr ''K1'')]])]\<rparr>)
       ''Content-Disposition''
     \<noteq> Some (''attachment; filename='' @ [CHR 0x22] @ ''Product_Selection_''
               @ spaces_to_underscores ''12  Smith St'' @ ''.docx'' @ [CHR 0x22])"
  by (simp add: handler_def try_block_def prepare_def validate_def isArray_def elements_def
      load_template_def formattedDate_def toLocaleDateString_def get_prop_def categories_of_def
      group_step_def category_key_def Object_prototype_names_def or_js_def demo_env_def Let_def
      send_document_def address_replace_def is_whitespace_def spaces_to_underscores_def
      setHeader_def valid_header_char_def docx_mime_def content_disposition_def)

text \<open>
  C6, amended. When the address is a string whose characters outside whitespace are all
  accepted in a header value (U+0020 to U+007E, U+0080 to U+00FF) and the merge succeeds
  (the engine was set up, \<open>doc.render()\<close> returned and the archive was generated), the
  response has status 200, the body is the archive, the content type is the Word document
  type, and the file name is \<open>Product_Selection_\<close>, the address with each maximal run
  of whitespace replaced by one underscore, and \<open>.docx\<close>.
\<close>

theorem document_response:
  assumes "req_method req = ''POST''"
    and "field req ''address'' = JStr s"
    and "\<forall>c\<in>set s. is_whitespace c \<or> valid_header_char c"
    and "prepare env cors_headers (or_js (req_body req) (JObj [])) = Continue (a, doc)"
    and "render env doc = Inr doc'"
    and "generate env doc' = Inr buf"
  shows "handler env req =
     \<lparr>status = 200,
      headers = cors_headers(
        ''Content-Type'' \<mapsto> ''application/vnd.openxmlformats-officedocument.wordprocessingml.document'',
        ''Content-Disposition'' \<mapsto>
          ''attachment; filename='' @ [CHR 0x22] @ ''Product_Selection_'' @ replace_whitespace s @ ''.docx'' @ [CHR 0x22]),
      body = Binary buf\<rparr>"
  using handler_sends_document[OF assms(1) assms(4) assms(5) assms(6) assms(2)
      replace_whitespace_valid[OF assms(3)]]
  by (simp add: docx_mime_def)

theorem document_response_witness:
  "req_method \<lparr>req_method = ''POST'',
       req_body = JObj [(''address'', JStr ''12 Smith St''), (''products'', JArr [JObj [(''code'', JStr ''K1'')]])]\<rparr> = ''POST''
   \<and> field \<lparr>req_method = ''POST'',
       req_body = JObj [(''address'', JStr ''12 Smith St''), (''products'', JArr [JObj [(''code'', JStr ''K1'')]])]\<rparr> ''address''
      = JStr ''12 Smith St''
   \<and> list_all (\<lambda>c. is_whitespace c \<or> valid_header_char c) ''12 Smith St''
   \<and> prepare demo_env cors_headers
        (or_js (req_body \<lparr>req_method = ''POST'',
           req_body = JObj [(''address'', JStr ''12 Smith St''), (''products'', JArr [JObj [(''code'', JStr ''K1'')]])]\<rparr>) (JObj []))
      = Continue (JStr ''12 Smith St'', ())
   \<and> render demo_env () = Inr ()
   \<and> generate demo_env () = Inr [80, 75]
   \<and> handler demo_env
        \<lparr>req_method = ''POST'',
         req_body = JObj [(''address'', JStr ''12 Smith St''), (''products'', JArr [JObj [(''code'', JStr ''K1'')]])]\<rparr>
      = \<lparr>status = 200,
         headers = cors_headers(
           ''Content-Type'' \<mapsto> ''application/vnd.openxmlformats-officedocument.wordprocessingml.document'',
           ''Content-Disposition'' \<mapsto>
             ''attachment; filename='' @ [CHR 0x22] @ ''Product_Selection_12_Smith_St.docx'' @ [CHR 0x22]),
         body = Binary [80, 75]\<rparr>"
proof -
  let ?req = "\<lparr>req_method = ''POST'',
       req_body = JObj [(''address'', JStr ''12 Smith St''), (''products'', JArr [JObj [(''code'', JStr ''K1'')]])]\<rparr>"
  have post: "req_method ?req = ''POST''" by simp
  have addr: "field ?req ''address'' = JStr ''12 Smith St''" by (simp add: field_def or_js_def)
  have prep: "prepare demo_env cors_headers (or_js (req_body ?req) (JObj [])) = Continue (JStr ''12 Smith St'', ())"
    by (simp add: prepare_def validate_def isArray_def elements_def load_template_def formattedDate_def
        toLocaleDateString_def get_prop_def categories_of_def group_step_def category_key_def
        Object_prototype_names_def or_js_def demo_env_def Let_def)
  have rend: "render demo_env () = Inr ()" by (simp add: demo_env_def)
  have gen: "generate demo_env () = Inr [80, 75]" by (simp add: demo_env_def)
  have name: "replace_whitespace ''12 Smith St'' = ''12_Smith_St''" by (simp add: is_whitespace_def)
  have chars: "list_all (\<lambda>c. is_whitespace c \<or> valid_header_char c) ''12 Smith St''"
    by (simp add: is_whitespace_def valid_header_char_def)
  then have chars': "\<forall>c\<in>set ''12 Smith St''. is_whitespace c \<or> valid_header_char c"
    unfolding list_all_iff .
  from document_response[OF post addr chars' prep rend gen] post addr chars prep rend gen name
  show ?thesis by simp
qed

text \<open>
  C10. An address that is a non-empty string is never answered with \<open>Address is
  required\<close>, whitespace included. When such an address is whitespace only and the merge
  succeeds, the response has status 200 and the file name \<open>Product_Selection__.docx\<close>.
\<close>

theorem whitespace_address_accepted:
  assumes "req_method req = ''POST''" and "field req ''address'' = JStr s" and "s \<noteq> []"
  shows "handler env req \<noteq> json_response 400 cors_headers ''Address is required'' None
       \<and> ((\<forall>c\<in>set s. is_whitespace c)
            \<and> prepare env cors_headers (or_js (req_body req) (JObj [])) = Continue (a, doc)
            \<and> render env doc = Inr doc' \<and> generate env doc' = Inr buf
          \<longrightarrow> status (handler env req) = 200
            \<and> headers (handler env req) ''Content-Disposition''
                = Some (''attachment; filename='' @ [CHR 0x22] @ ''Product_Selection__.docx'' @ [CHR 0x22]))"
proof (intro conjI impI)
  from assms(2,3) have "truthy (field req ''address'')" by simp
  from truthy_address_not_rejected[OF assms(1) this]
  show "handler env req \<noteq> json_response 400 cors_headers ''Address is required'' None" .
next
  assume h: "(\<forall>c\<in>set s. is_whitespace c)
            \<and> prepare env cors_headers (or_js (req_body req) (JObj [])) = Continue (a, doc)
            \<and> render env doc = Inr doc' \<and> generate env doc' = Inr buf"
  then have name: "replace_whitespace s = ''_''" using replace_whitespace_all[OF assms(3)] by blast
  have "list_all valid_header_char (replace_whitespace s)"
    by (simp add: name valid_underscore)
  with h handler_sends_document[OF assms(1) _ _ _ assms(2), of env a doc doc' buf]
  have r: "handler env req =
     \<lparr>status = 200,
      headers = cors_headers(''Content-Type'' \<mapsto> docx_mime,
        ''Content-Disposition'' \<mapsto>
          ''attachment; filename='' @ [CHR 0x22] @ ''Product_Selection_'' @ replace_whitespace s @ ''.docx'' @ [CHR 0x22]),
      body = Binary buf\<rparr>"
    by blast
  show "status (handler env req) = 200" by (simp add: r)
  show "headers (handler env req) ''Content-Disposition''
                = Some (''attachment; filename='' @ [CHR 0x22] @ ''Product_Selection__.docx'' @ [CHR 0x22])"
    by (simp add: r name)
qed

theorem whitespace_address_accepted_witness:
  "req_method \<lparr>req_method = ''POST'',
       req_body = JObj [(''address'', JStr '' ''), (''products'', JArr [JObj [(''code'', JStr ''K1'')]])]\<rparr> = ''POST''
   \<and> field \<lparr>req_method = ''POST'',
       req_body = JObj [(''address'', JStr '' ''), (''products'', JArr [JObj [(''code'', JStr ''K1'')]])]\<rparr> ''address''
      = JStr '' ''
   \<and> '' '' \<noteq> ''''
   \<and> list_all is_whitespace '' ''
   \<and> prepare demo_env cors_headers
        (or_js (req_body \<lparr>req_method = ''POST'',
           req_body = JObj [(''address'', JStr '' ''), (''products'', JArr [JObj [(''code'', JStr ''K1'')]])]\<rparr>) (JObj []))
      = Continue (JStr '' '', ())
   \<and> render demo_env () = Inr ()
   \<and> generate demo_env () = Inr [80, 75]
   \<and> handler demo_env
        \<lparr>req_method = ''POST'',
         req_body = JObj [(''address'', JStr '' ''), (''products'', JArr [JObj [(''code'', JStr ''K1'')]])]\<rparr>
      \<noteq> json_response 400 cors_headers ''Address is required'' None
   \<and> status (handler demo_env
        \<lparr>req_method = ''POST'',
         req_body = JObj [(''address'', JStr '' ''), (''products'', JArr [JObj [(''code'', JStr ''K1'')]])]\<rparr>) = 200
   \<and> headers (handler demo_env
        \<lparr>req_method = ''POST'',
         req_body = JObj [(''address'', JStr '' ''), (''products'', JArr [JObj [(''code'', JStr ''K1'')]])]\<rparr>)
        ''Content-Disposition''
      = Some (''attachment; filename='' @ [CHR 0x22] @ ''Product_Selection__.docx'' @ [CHR 0x22])"
proof -
  let ?req = "\<lparr>req_method = ''POST'',
       req_body = JObj [(''address'', JStr '' ''), (''products'', JArr [JObj [(''code'', JStr ''K1'')]])]\<rparr>"
  have post: "req_method ?req = ''POST''" by simp
  have addr: "field ?req ''address'' = JStr '' ''" by (simp add: field_def or_js_def)
  have ne: "'' '' \<noteq> ''''" by simp
  have ws: "\<forall>c\<in>set '' ''. is_whitespace c" by (simp add: is_whitespace_def)
  have ws': "list_all is_whitespace '' ''" by (simp add: is_whitespace_def)
  have prep: "prepare demo_env cors_headers (or_js (req_body ?req) (JObj [])) = Continue (JStr '' '', ())"
    by (simp add: prepare_def validate_def isArray_def elements_def load_template_def formattedDate_def
        toLocaleDateString_def get_prop_def categories_of_def group_step_def category_key_def
        Object_prototype_names_def or_js_def demo_env_def Let_def)
  have rend: "render demo_env () = Inr ()" by (simp add: demo_env_def)
  have gen: "generate demo_env () = Inr [80, 75]" by (simp add: demo_env_def)
  from whitespace_address_accepted[OF post addr ne, of demo_env "JStr '' ''" "()" "()" "[80, 75]"]
    ws prep rend gen
  have "handler demo_env ?req \<noteq> json_response 400 cors_headers ''Address is required'' None
      \<and> status (handler demo_env ?req) = 200
      \<and> headers (handler demo_env ?req) ''Content-Disposition''
          = Some (''attachment; filename='' @ [CHR 0x22] @ ''Product_Selection__.docx'' @ [CHR 0x22])"
    by blast
  with post addr ne ws' prep rend gen show ?thesis by blast
qed

section \<open>What the handler gives the template engine\<close>

text \<open>
  When lines 16-117 run to their end, every step before has produced its value: the
  instance the handler holds was constructed from the options of lines 70-75 and then
  given the data of lines 109-117.
\<close>

lemma prepare_ContinueD:
  assumes "prepare env hs b = Continue (a, doc')"
  shows "\<exists>zip_archive formatted has_images doc cats.
      load_template env hs = Continue zip_archive
    \<and> formattedDate env (read_prop b ''date'') = Inr formatted
    \<and> hasImages (elements (read_prop b ''products'')) = Inr has_images
    \<and> Docxtemplater env zip_archive (engine_options env has_images) = Inr doc
    \<and> categories_of (elements (read_prop b ''products'')) = Inr cats
    \<and> setData env doc
          (template_data a formatted (read_prop b ''contactName'') (read_prop b ''company'')
             (read_prop b ''phoneNumber'') (read_prop b ''email'') cats) = Inr doc'"
  using assms
  by (auto simp: prepare_def Let_def split: outcome.splits sum.splits)

lemma hasImages_Inr:
  "hasImages ps = Inr b \<Longrightarrow> b = (\<exists>p\<in>set ps. truthy (read_prop p ''image''))"
proof (induction ps)
  case Nil
  then show ?case by simp
next
  case (Cons p ps)
  then show ?case
    by (auto simp: get_prop_def split: if_splits)
qed

text \<open>
  C8. Whenever the handler has set up the template engine, the options it constructed
  the engine with have paragraph loops and line breaks on, the delimiters \<open>{{\<close> and
  \<open>}}\<close>, and carry the image module exactly when some product of the request has a
  truthy image; with no such product they carry no module. The module's \<open>getImage\<close>
  decodes a truthy tag value from base64 and gives a zero-length buffer for any other;
  its \<open>getSize\<close> is 132 by 132 whatever its arguments.
\<close>

theorem image_module_attached:
  assumes "prepare env hs b = Continue (a, doc')"
  shows "(\<exists>zip_archive doc data opts.
            Docxtemplater env zip_archive opts = Inr doc \<and> setData env doc data = Inr doc'
          \<and> paragraphLoop opts \<and> linebreaks opts \<and> delimiters opts = (''{{'', ''}}'')
          \<and> (modules opts = Some [imageModule env])
               = (\<exists>p\<in>set (elements (read_prop b ''products'')). truthy (read_prop p ''image''))
          \<and> (modules opts = None)
               = (\<not> (\<exists>p\<in>set (elements (read_prop b ''products'')). truthy (read_prop p ''image''))))
       \<and> getImage (imageModule env) tagValue
           = (if truthy tagValue then Buffer_from_base64 env tagValue else Inr [])
       \<and> getSize (imageModule env) img tagValue tagName = [132, 132]"
proof -
  from prepare_ContinueD[OF assms] obtain zip_archive formatted has_images doc cats where
    images: "hasImages (elements (read_prop b ''products'')) = Inr has_images"
    and constructed: "Docxtemplater env zip_archive (engine_options env has_images) = Inr doc"
    and given: "setData env doc
          (template_data a formatted (read_prop b ''contactName'') (read_prop b ''company'')
             (read_prop b ''phoneNumber'') (read_prop b ''email'') cats) = Inr doc'"
    by blast
  from hasImages_Inr[OF images]
  have flag: "has_images = (\<exists>p\<in>set (elements (read_prop b ''products'')). truthy (read_prop p ''image''))" .
  let ?some = "\<exists>p\<in>set (elements (read_prop b ''products'')). truthy (read_prop p ''image'')"
  from constructed flag have constructed': "Docxtemplater env zip_archive (engine_options env ?some) = Inr doc"
    by simp
  have "\<exists>zip_archive doc data opts.
            Docxtemplater env zip_archive opts = Inr doc \<and> setData env doc data = Inr doc'
          \<and> paragraphLoop opts \<and> linebreaks opts \<and> delimiters opts = (''{{'', ''}}'')
          \<and> (modules opts = Some [imageModule env]) = ?some
          \<and> (modules opts = None) = (\<not> ?some)"
    apply (rule exI[of _ zip_archive])
    apply (rule exI[of _ doc])
    apply (rule exI[of _ "template_data a formatted (read_prop b ''contactName'') (read_prop b ''company'')
             (read_prop b ''phoneNumber'') (read_prop b ''email'') cats"])
    apply (rule exI[of _ "engine_options env ?some"])
    apply (simp add: constructed' given)
    apply (simp add: engine_options_def)
    done
  then show ?thesis by (simp add: imageModule_def)
qed

theorem image_module_attached_witness:
  "prepare recording_env cors_headers
     (JObj [(''address'', JStr ''12 Smith St''),
            (''products'', JArr [JObj [(''code'', JStr ''K1'')],
                                 JObj [(''code'', JStr ''B1''), (''image'', JStr ''aGk='')]])])
     = Continue (JStr ''12 Smith St'',
         (engine_options recording_env True,
          Some (template_data (JStr ''12 Smith St'') ''1 January 1970'' JUndefined JUndefined JUndefined JUndefined
                  [\<lparr>category_name = ''OTHER'',
                    group_rows = [transform_product (JObj [(''code'', JStr ''K1'')]),
                                  transform_product (JObj [(''code'', JStr ''B1''), (''image'', JStr ''aGk='')])]\<rparr>])))
   \<and> modules (engine_options recording_env True) = Some [imageModule recording_env]
   \<and> prepare recording_env cors_headers
     (JObj [(''address'', JStr ''12 Smith St''),
            (''products'', JArr [JObj [(''code'', JStr ''K1'')],
                                 JObj [(''code'', JStr ''B1''), (''image'', JNull)]])])
     = Continue (JStr ''12 Smith St'',
         (engine_options recording_env False,
          Some (template_data (JStr ''12 Smith St'') ''1 January 1970'' JUndefined JUndefined JUndefined JUndefined
                  [\<lparr>category_name = ''OTHER'',
                    group_rows = [transform_product (JObj [(''code'', JStr ''K1'')]),
                                  transform_product (JObj [(''code'', JStr ''B1''), (''image'', JNull)])]\<rparr>])))
   \<and> modules (engine_options recording_env False) = None
   \<and> getImage (imageModule recording_env) (JStr ''aGk='') = Inr [104, 105]
   \<and> getImage (imageModule recording_env) (JStr '''') = Inr []
   \<and> getSize (imageModule recording_env) [104, 105] (JStr ''aGk='') ''image'' = [132, 132]"
proof -
  let ?with = "JObj [(''address'', JStr ''12 Smith St''),
            (''products'', JArr [JObj [(''code'', JStr ''K1'')],
                                 JObj [(''code'', JStr ''B1''), (''image'', JStr ''aGk='')]])]"
  let ?without = "JObj [(''address'', JStr ''12 Smith St''),
            (''products'', JArr [JObj [(''code'', JStr ''K1'')],
                                 JObj [(''code'', JStr ''B1''), (''image'', JNull)]])]"
  let ?d1 = "template_data (JStr ''12 Smith St'') ''1 January 1970'' JUndefined JUndefined JUndefined JUndefined
                  [\<lparr>category_name = ''OTHER'',
                    group_rows = [transform_product (JObj [(''code'', JStr ''K1'')]),
                                  transform_product (JObj [(''code'', JStr ''B1''), (''image'', JStr ''aGk='')])]\<rparr>]"
  let ?d2 = "template_data (JStr ''12 Smith St'') ''1 January 1970'' JUndefined JUndefined JUndefined JUndefined
                  [\<lparr>category_name = ''OTHER'',
                    group_rows = [transform_product (JObj [(''code'', JStr ''K1'')]),
                                  transform_product (JObj [(''code'', JStr ''B1''), (''image'', JNull)])]\<rparr>]"
  have p1: "prepare recording_env cors_headers ?with
      = Continue (JStr ''12 Smith St'', (engine_options recording_env True, Some ?d1))"
    by (simp add: prepare_def validate_def isArray_def elements_def load_template_def formattedDate_def
        toLocaleDateString_def get_prop_def categories_of_def group_step_def category_key_def
        Object_prototype_names_def or_js_def recording_env_def Let_def categoriesData_def
        categoryOrder_def toUpperCase_def upper_char_def)
  have p2: "prepare recording_env cors_headers ?without
      = Continue (JStr ''12 Smith St'', (engine_options recording_env False, Some ?d2))"
    by (simp add: prepare_def validate_def isArray_def elements_def load_template_def formattedDate_def
        toLocaleDateString_def get_prop_def categories_of_def group_step_def category_key_def
        Object_prototype_names_def or_js_def recording_env_def Let_def categoriesData_def
        categoryOrder_def toUpperCase_def upper_char_def)
  have rec: "Docxtemplater recording_env z opts = Inr doc \<Longrightarrow> setData recording_env doc data = Inr doc'
      \<Longrightarrow> fst doc' = opts" for z opts doc data doc'
    by (auto simp: recording_env_def)
  note t1 = image_module_attached[OF p1, of "JStr ''aGk=''" "[104, 105]" "''image''"]
  from t1[THEN conjunct1]
  obtain z1 doc1 data1 opts1 where
    c1: "Docxtemplater recording_env z1 opts1 = Inr doc1"
      "setData recording_env doc1 data1 = Inr (engine_options recording_env True, Some ?d1)"
    and m1: "(modules opts1 = Some [imageModule recording_env])
               = (\<exists>p\<in>set (elements (read_prop ?with ''products'')). truthy (read_prop p ''image''))"
    by (elim exE conjE) (rule that; assumption)
  from t1[THEN conjunct2, THEN conjunct1]
  have g1: "getImage (imageModule recording_env) (JStr ''aGk='')
           = (if truthy (JStr ''aGk='') then Buffer_from_base64 recording_env (JStr ''aGk='') else Inr [])" .
  from t1[THEN conjunct2, THEN conjunct2]
  have s1: "getSize (imageModule recording_env) [104, 105] (JStr ''aGk='') ''image'' = [132, 132]" .
  from rec[OF c1] have o1: "opts1 = engine_options recording_env True" by simp
  from m1 have a1: "modules (engine_options recording_env True) = Some [imageModule recording_env]"
    unfolding o1 by (simp add: elements_def)
  note t2 = image_module_attached[OF p2, of "JStr ''''" "[]" "''image''"]
  from t2[THEN conjunct1]
  obtain z2 doc2 data2 opts2 where
    c2: "Docxtemplater recording_env z2 opts2 = Inr doc2"
      "setData recording_env doc2 data2 = Inr (engine_options recording_env False, Some ?d2)"
    and m2: "(modules opts2 = None)
               = (\<not> (\<exists>p\<in>set (elements (read_prop ?without ''products'')). truthy (read_prop p ''image'')))"
    by (elim exE conjE) (rule that; assumption)
  from t2[THEN conjunct2, THEN conjunct1]
  have g2: "getImage (imageModule recording_env) (JStr '''')
           = (if truthy (JStr '''') then Buffer_from_base64 recording_env (JStr '''') else Inr [])" .
  from rec[OF c2] have o2: "opts2 = engine_options recording_env False" by simp
  from m2 have a2: "modules (engine_options recording_env False) = None"
    unfolding o2 by (simp add: elements_def)
  have g1': "getImage (imageModule recording_env) (JStr ''aGk='') = Inr [104, 105]"
    using g1 by (simp add: recording_env_def)
  have g2': "getImage (imageModule recording_env) (JStr '''') = Inr []"
    using g2 by simp
  from p1 a1 p2 a2 g1' g2' s1 show ?thesis by blast
qed





end
